theory Spec2Isabelle
  imports Complex_Main
begin

section \<open>Values and exceptions\<close>

text \<open>
  The program is dynamically typed, so the arguments of its functions are values of one
  type. \<open>PFloat\<close> stands for a finite float, read as the real number it denotes (nan and
  the infinities are not represented).
\<close>

datatype pyval =
    PNone
  | is_bool: PBool bool
  | is_int: PInt int
  | is_float: PFloat real
  | is_str: PStr string

datatype error =
    TypeError | ValueError | AttributeError | IndexError
  | FileNotFoundError | IsADirectoryError | PermissionError
  | UnpicklingError | EOFError | OtherError string

text \<open>The number a value denotes when the value is a bool, an int or a float.\<close>

fun num_of :: "pyval \<Rightarrow> real option" where
  "num_of (PBool b) = Some (if b then 1 else 0)"
| "num_of (PInt i) = Some (of_int i)"
| "num_of (PFloat r) = Some r"
| "num_of PNone = None"
| "num_of (PStr s) = None"

text \<open>
  The operator \<open>==\<close>: numbers compare by value whatever their type (\<open>True == 1\<close>),
  a string equals only the same string, \<open>None\<close> only \<open>None\<close>; it never raises.
\<close>

definition py_eq :: "pyval \<Rightarrow> pyval \<Rightarrow> bool" where
  "py_eq a b =
     (case (num_of a, num_of b) of
        (Some x, Some y) \<Rightarrow> x = y
      | (None, None) \<Rightarrow> a = b
      | _ \<Rightarrow> False)"

text \<open>
  The builtin \<open>int(v)\<close>. On a string it parses an integer literal; the parser belongs to
  the interpreter and is a parameter here (\<open>None\<close> where it raises \<open>ValueError\<close>).
  A float is truncated towards zero.
\<close>

fun py_int :: "(string \<Rightarrow> int option) \<Rightarrow> pyval \<Rightarrow> error + int" where
  "py_int int_literal (PBool b) = Inr (if b then 1 else 0)"
| "py_int int_literal (PInt i) = Inr i"
| "py_int int_literal (PFloat r) = Inr (if 0 \<le> r then \<lfloor>r\<rfloor> else \<lceil>r\<rceil>)"
| "py_int int_literal (PStr s) =
     (case int_literal s of None \<Rightarrow> Inl ValueError | Some i \<Rightarrow> Inr i)"
| "py_int int_literal PNone = Inl TypeError"

section \<open>Dictionaries and data frames\<close>

text \<open>A dict keeps its insertion order; a dict literal with distinct keys is the list of its items.\<close>

type_synonym pydict = "(string \<times> pyval) list"

text \<open>
  A data frame: its column names and its rows, one cell per column. A cell is \<open>None\<close>
  where the frame holds a missing value.
\<close>

record dataframe =
  columns :: "string list"
  rows :: "pyval option list list"

text \<open>The keys of the dicts in the order they are first seen.\<close>

fun first_seen :: "string list \<Rightarrow> string list \<Rightarrow> string list" where
  "first_seen seen [] = []"
| "first_seen seen (k # ks) =
     (if k \<in> set seen then first_seen seen ks else k # first_seen (k # seen) ks)"

text \<open>
  \<open>pd.DataFrame(records)\<close> on a list of dicts: one row per dict, one column per key, a
  missing cell where a dict lacks the key.
\<close>

definition DataFrame :: "pydict list \<Rightarrow> dataframe" where
  "DataFrame records =
     (let cols = first_seen [] (concat (map (map fst) records))
      in \<lparr>columns = cols, rows = map (\<lambda>d. map (map_of d) cols) records\<rparr>)"

text \<open>The cell of row \<open>i\<close> under column \<open>c\<close>, when there is such a row, column and value.\<close>

definition df_cell :: "dataframe \<Rightarrow> nat \<Rightarrow> string \<Rightarrow> pyval option" where
  "df_cell df i c =
     (if i < length (rows df)
      then (case map_of (zip (columns df) (rows df ! i)) c of
              Some cell \<Rightarrow> cell
            | None \<Rightarrow> None)
      else None)"

section \<open>The feature encoder\<close>

definition prepare_input ::
  "(string \<Rightarrow> int option) \<Rightarrow> pyval \<Rightarrow> pyval \<Rightarrow> pyval \<Rightarrow> pyval \<Rightarrow> pyval \<Rightarrow> pyval \<Rightarrow> pyval
     \<Rightarrow> pyval \<Rightarrow> pyval \<Rightarrow> pyval \<Rightarrow> error + (dataframe \<times> pydict)" where
  "prepare_input int_literal credit_score location gender age tenure balance
       num_products has_credit_card is_active_member estimated_salary =
     (case py_int int_literal has_credit_card of
        Inl e \<Rightarrow> Inl e
      | Inr has_cr_card \<Rightarrow>
     (case py_int int_literal is_active_member of
        Inl e \<Rightarrow> Inl e
      | Inr active_member \<Rightarrow>
          (let input_dict =
             [(''CreditScore'', credit_score),
              (''Age'', age),
              (''Tenure'', tenure),
              (''Balance'', balance),
              (''NumOfProducts'', num_products),
              (''HasCrCard'', PInt has_cr_card),
              (''IsActiveMember'', PInt active_member),
              (''EstimatedSalary'', estimated_salary),
              (''Geography_France'', PInt (if py_eq location (PStr ''France'') then 1 else 0)),
              (''Geography_Germany'', PInt (if py_eq location (PStr ''Germany'') then 1 else 0)),
              (''Geography_Spain'', PInt (if py_eq location (PStr ''Spain'') then 1 else 0)),
              (''Gender_Male'', PInt (if py_eq gender (PStr ''Male'') then 1 else 0)),
              (''Gender_Female'', PInt (if py_eq gender (PStr ''Female'') then 1 else 0))];
             input_df = DataFrame [input_dict]
           in Inr (input_df, input_dict))))"

text \<open>The 13 field names, in the order of the dict literal.\<close>

definition field_names :: "string list" where
  "field_names =
     [''CreditScore'', ''Age'', ''Tenure'', ''Balance'', ''NumOfProducts'', ''HasCrCard'',
      ''IsActiveMember'', ''EstimatedSalary'', ''Geography_France'', ''Geography_Germany'',
      ''Geography_Spain'', ''Gender_Male'', ''Gender_Female'']"

text \<open>
  The argument types of the data model: integers for credit score, age, tenure and number
  of products, strings for location and gender, floats for balance and salary, booleans
  for the two flags. The only call of \<open>prepare_input\<close> passes such values.
\<close>

definition well_typed ::
  "pyval \<Rightarrow> pyval \<Rightarrow> pyval \<Rightarrow> pyval \<Rightarrow> pyval \<Rightarrow> pyval \<Rightarrow> pyval \<Rightarrow> pyval \<Rightarrow> pyval \<Rightarrow> pyval \<Rightarrow> bool" where
  "well_typed credit_score location gender age tenure balance
       num_products has_credit_card is_active_member estimated_salary =
     (is_int credit_score \<and> is_str location \<and> is_str gender \<and> is_int age \<and> is_int tenure
      \<and> is_float balance \<and> is_int num_products \<and> is_bool has_credit_card
      \<and> is_bool is_active_member \<and> is_float estimated_salary)"

section \<open>Float arithmetic\<close>

text \<open>
  The floats of the program are binary64. A finite one is the real number it denotes, and
  an arithmetic operation on finite floats is the exact operation followed by rounding to
  the nearest binary64, ties to the even significand. A result beyond the largest finite
  float is an infinity in the program and is not represented here.
\<close>

definition pow2 :: "int \<Rightarrow> real" where
  "pow2 e = (if 0 \<le> e then 2 ^ nat e else 1 / 2 ^ nat (- e))"

text \<open>
  The exponent of the binade of \<open>x\<close>: the least \<open>e\<close> from -1022 (which the subnormal
  numbers share) to 1023 with \<open>\<bar>x\<bar> < 2 ^ (e + 1)\<close>.
\<close>

definition float64_exponent :: "real \<Rightarrow> int" where
  "float64_exponent x =
     (case find (\<lambda>e. \<bar>x\<bar> < pow2 (e + 1)) [-1022..1023] of
        Some e \<Rightarrow> e
      | None \<Rightarrow> 1023)"

definition round_half_even :: "real \<Rightarrow> int" where
  "round_half_even q =
     (let n = \<lfloor>q\<rfloor>; r = q - of_int n
      in if r < 1 / 2 then n else if 1 / 2 < r then n + 1 else if even n then n else n + 1)"

text \<open>The nearest binary64: the nearest multiple of the unit in the last of 53 bits.\<close>

definition float64_round :: "real \<Rightarrow> real" where
  "float64_round x =
     (let ulp = pow2 (float64_exponent x - 52)
      in of_int (round_half_even (x / ulp)) * ulp)"

section \<open>Rendering\<close>

text \<open>
  An f-string is kept as its parts: literal text, and a float under the format \<open>.2%\<close>.
  The digits the interpreter prints for the float are not modelled.
\<close>

datatype fpart = Lit string | Pct2 real

type_synonym ftext = "fpart list"

text \<open>The two figures the program builds, with the attributes it sets.\<close>

record indicator =
  ind_mode :: string
  ind_value :: real
  ind_title_text :: string
  ind_axis_range :: "int list"
  ind_bar_color :: string

record bar_chart =
  bar_x :: "string list"
  bar_y :: "real list"
  bar_text :: "ftext list"
  bar_textposition :: string
  layout_title :: string
  layout_xaxis_title :: string
  layout_yaxis_title :: string
  layout_yaxis_tickformat :: string

datatype figure = IndicatorFigure indicator | BarFigure bar_chart

text \<open>
  What the page has been asked to render: the calls of the UI toolkit in the order they
  were made, each with the container it was made in (the page itself, or one of the
  columns of the last \<open>st.columns\<close>).
\<close>

datatype container = Page | Column nat

datatype st_call =
    St_error ftext
  | St_markdown ftext
  | St_write ftext
  | St_columns nat
  | St_plotly_chart figure bool

type_synonym ui = "(container \<times> st_call) list"

definition create_gauge_chart :: "real \<Rightarrow> figure" where
  "create_gauge_chart v =
     IndicatorFigure
       \<lparr>ind_mode = ''gauge+number'',
        ind_value = float64_round (v * 100),
        ind_title_text = ''Churn Probability (%)'',
        ind_axis_range = [0, 100],
        ind_bar_color = ''darkblue''\<rparr>"

definition create_model_probability_chart :: "(string \<times> real) list \<Rightarrow> figure" where
  "create_model_probability_chart probabilities =
     BarFigure
       \<lparr>bar_x = map fst probabilities,
        bar_y = map snd probabilities,
        bar_text = map (\<lambda>v. [Pct2 v]) (map snd probabilities),
        bar_textposition = ''auto'',
        layout_title = ''Model Probabilities'',
        layout_xaxis_title = ''Models'',
        layout_yaxis_title = ''Probability'',
        layout_yaxis_tickformat = ''.0%''\<rparr>"

section \<open>Loading the models\<close>

text \<open>
  A loaded model is known by its one capability, \<open>predict_proba\<close>: from a data frame to
  an array with one row per sample and one column per class, or an exception.
\<close>

type_synonym classifier = "dataframe \<Rightarrow> error + real list list"

text \<open>
  What \<open>open(filename, "rb")\<close> answers for a path belongs to the operating system and is
  a parameter: the content of the file, or the exception raised (\<open>FileNotFoundError\<close>
  where there is no such file, and others: a directory, a path under a regular file, a
  file that may not be read).
\<close>

type_synonym filesystem = "string \<Rightarrow> error + string"

text \<open>
  \<open>pickle.load\<close> on the opened file. On an empty file it raises \<open>EOFError\<close> (it runs out
  of input before the first opcode); what it answers for any other content belongs to the
  library and is a parameter: the model, \<open>UnpicklingError\<close>, or another exception.
\<close>

definition pickle_load :: "(string \<Rightarrow> error + classifier) \<Rightarrow> string \<Rightarrow> error + classifier" where
  "pickle_load unpickle content = (if content = [] then Inl EOFError else unpickle content)"

text \<open>
  \<open>load_model\<close>: the body of the \<open>try\<close> opens the file and unpickles it. The two
  handlers catch their exception wherever in the body it was raised; any other exception
  leaves the function.
\<close>

definition load_model ::
  "(string \<Rightarrow> error + classifier) \<Rightarrow> filesystem \<Rightarrow> string \<Rightarrow> ui
     \<Rightarrow> (error + classifier option) \<times> ui" where
  "load_model unpickle fs filename page =
     (case (case fs filename of Inl e \<Rightarrow> Inl e | Inr file \<Rightarrow> pickle_load unpickle file) of
        Inr model \<Rightarrow> (Inr (Some model), page)
      | Inl FileNotFoundError \<Rightarrow>
          (Inr None,
           page @ [(Page, St_error [Lit (''Model file '' @ [CHR 0x27]), Lit filename,
                                    Lit (CHR 0x27 # '' not found.'')])])
      | Inl UnpicklingError \<Rightarrow>
          (Inr None,
           page @ [(Page, St_error [Lit (''Error loading model from '' @ [CHR 0x27]), Lit filename,
                                    Lit (CHR 0x27 # ''. File might be corrupted.'')])])
      | Inl e \<Rightarrow> (Inl e, page))"

text \<open>The three module-level variables that hold the models (\<open>None\<close> after a failed load).\<close>

record registry =
  xgboost_model :: "classifier option"
  random_forest_model :: "classifier option"
  knn_model :: "classifier option"

section \<open>The prediction aggregator\<close>

text \<open>
  The expression \<open>model.predict_proba(input_df)[0][1]\<close>: calling the method on \<open>None\<close>
  raises \<open>AttributeError\<close>, and an index out of the array's range \<open>IndexError\<close>.
\<close>

definition predict_proba_0_1 :: "classifier option \<Rightarrow> dataframe \<Rightarrow> error + real" where
  "predict_proba_0_1 model input_df =
     (case model of
        None \<Rightarrow> Inl AttributeError
      | Some predict_proba \<Rightarrow>
          (case predict_proba input_df of
             Inl e \<Rightarrow> Inl e
           | Inr proba \<Rightarrow>
               (case proba of
                  [] \<Rightarrow> Inl IndexError
                | row0 # _ \<Rightarrow> if 1 < length row0 then Inr (row0 ! 1) else Inl IndexError)))"

text \<open>The dict \<open>probabilities\<close> of \<open>make_predictions\<close>, its values evaluated in order.\<close>

definition probabilities :: "registry \<Rightarrow> dataframe \<Rightarrow> error + (string \<times> real) list" where
  "probabilities reg input_df =
     (case predict_proba_0_1 (xgboost_model reg) input_df of
        Inl e \<Rightarrow> Inl e
      | Inr xgb \<Rightarrow>
     (case predict_proba_0_1 (random_forest_model reg) input_df of
        Inl e \<Rightarrow> Inl e
      | Inr rf \<Rightarrow>
     (case predict_proba_0_1 (knn_model reg) input_df of
        Inl e \<Rightarrow> Inl e
      | Inr knn \<Rightarrow>
          Inr [(''XGBoost'', xgb), (''Random Forest'', rf), (''K-Nearest Neighbors'', knn)])))"

text \<open>
  \<open>np.mean\<close> of a list of floats: the elements are added in order, from 0, each addition
  rounded, and the sum is divided by the count, rounded again. (numpy adds in this order
  below 8 elements, and the list here has three. On the empty list it answers nan.)
\<close>

definition np_mean :: "real list \<Rightarrow> real" where
  "np_mean xs =
     float64_round (foldl (\<lambda>acc x. float64_round (acc + x)) 0 xs / real (length xs))"

definition make_predictions ::
  "registry \<Rightarrow> dataframe \<Rightarrow> pydict \<Rightarrow> ui \<Rightarrow> (error + real) \<times> ui" where
  "make_predictions reg input_df input_dict page =
     (case probabilities reg input_df of
        Inl e \<Rightarrow> (Inl e, page)
      | Inr probs \<Rightarrow>
          (let avg_probability = np_mean (map snd probs);
               page1 = page @ [(Page, St_markdown [Lit ''### Model Probabilities''])];
               page2 = page1 @
                 map (\<lambda>(model, prob). (Page, St_write [Lit model, Lit '': '', Pct2 prob])) probs;
               page3 = page2 @
                 [(Page, St_write [Lit ''Average Probability: '', Pct2 avg_probability])];
               page4 = page3 @ [(Page, St_columns 2)];
               page5 = page4 @
                 [(Column 0, St_plotly_chart (create_gauge_chart avg_probability) True),
                  (Column 0, St_write [Lit ''The customer has a '', Pct2 avg_probability,
                                       Lit '' probability of churning.''])];
               page6 = page5 @
                 [(Column 1, St_plotly_chart (create_model_probability_chart probs) True)]
           in (Inr avg_probability, page6)))"

text \<open>
  Three models that answer the same array for every data frame, with positive-class
  probabilities the floats 0.2, 0.5 and 0.8: the registry of the concrete evaluations
  below.
\<close>

definition example_registry :: registry where
  "example_registry =
     \<lparr>xgboost_model = Some (\<lambda>df. Inr [[float64_round 0.8, float64_round 0.2]]),
      random_forest_model = Some (\<lambda>df. Inr [[1 / 2, 1 / 2]]),
      knn_model = Some (\<lambda>df. Inr [[float64_round 0.2, float64_round 0.8]])\<rparr>"


section \<open>Facts about dictionaries and data frames\<close>

lemma first_seen_distinct:
  "distinct ks \<Longrightarrow> set ks \<inter> set seen = {} \<Longrightarrow> first_seen seen ks = ks"
  by (induction ks arbitrary: seen) auto

lemma DataFrame_single:
  assumes "distinct (map fst d)"
  shows "DataFrame [d] = \<lparr>columns = map fst d, rows = [map (map_of d) (map fst d)]\<rparr>"
  using assms by (simp add: DataFrame_def first_seen_distinct)

lemma map_of_zip_map:
  "map_of (zip ks (map f ks)) k = (if k \<in> set ks then Some (f k) else None)"
  by (induction ks) auto

lemma df_cell_single:
  assumes "distinct (map fst d)"
  shows "df_cell (DataFrame [d]) 0 k = map_of d k"
proof -
  let ?ks = "map fst d"
  have "df_cell (DataFrame [d]) 0 k =
          (case map_of (zip ?ks (map (map_of d) ?ks)) k of Some cell \<Rightarrow> cell | None \<Rightarrow> None)"
    by (simp only: DataFrame_single [OF assms] df_cell_def) simp
  also have "\<dots> = (if k \<in> set ?ks then map_of d k else None)"
    by (simp only: map_of_zip_map) simp
  also have "\<dots> = map_of d k"
  proof (cases "k \<in> set ?ks")
    case True
    then show ?thesis by simp
  next
    case False
    then have "map_of d k = None" by (simp add: map_of_eq_None_iff)
    with False show ?thesis by simp
  qed
  finally show ?thesis .
qed

lemma prepare_input_Inr:
  assumes "py_int p hcc = Inr h" and "py_int p iam = Inr a"
  shows "\<exists>d. prepare_input p cs loc g age ten bal np hcc iam es = Inr (DataFrame [d], d)
           \<and> d = zip field_names
                 [cs, age, ten, bal, np, PInt h, PInt a, es,
                  PInt (if py_eq loc (PStr ''France'') then 1 else 0),
                  PInt (if py_eq loc (PStr ''Germany'') then 1 else 0),
                  PInt (if py_eq loc (PStr ''Spain'') then 1 else 0),
                  PInt (if py_eq g (PStr ''Male'') then 1 else 0),
                  PInt (if py_eq g (PStr ''Female'') then 1 else 0)]"
  using assms by (simp add: prepare_input_def field_names_def Let_def)

lemma prepare_input_Inl:
  "prepare_input p cs loc g age ten bal np hcc iam es = Inl e
     \<longleftrightarrow> py_int p hcc = Inl e \<or> (\<exists>h. py_int p hcc = Inr h \<and> py_int p iam = Inl e)"
  by (simp add: prepare_input_def Let_def split: sum.splits)

lemma prepare_input_InrD:
  assumes "prepare_input p cs loc g age ten bal np hcc iam es = Inr r"
  shows "\<exists>h a. py_int p hcc = Inr h \<and> py_int p iam = Inr a"
  using assms by (simp add: prepare_input_def Let_def split: sum.splits)

lemma py_int_bool: "is_bool v \<Longrightarrow> py_int p v = Inr (if v = PBool True then 1 else 0)"
  by (cases v) auto

lemma distinct_field_names: "distinct field_names"
  by (simp add: field_names_def)

lemma py_eq_PStr [simp]: "py_eq v (PStr s) = (v = PStr s)"
  by (cases v) (auto simp: py_eq_def)


lemma keys_zip_field_names:
  "length vs = 13 \<Longrightarrow> map fst (zip field_names vs) = field_names"
  by (simp add: field_names_def)

lemma example_customer:
  "\<exists>d. prepare_input (\<lambda>s. None) (PInt 650) (PStr ''Spain'') (PStr ''Female'') (PInt 40)
         (PInt 3) (PFloat 50000) (PInt 2) (PBool True) (PBool True) (PFloat 60000)
       = Inr (DataFrame [d], d)"
  using prepare_input_Inr [of "\<lambda>s. None" "PBool True" 1 "PBool True" 1] by auto

section \<open>Facts about float arithmetic\<close>

lemma pow2_powr: "pow2 e = 2 powr real_of_int e"
  by (simp add: pow2_def powr_realpow [symmetric] powr_minus divide_inverse)


lemma pow2_mono: "a \<le> b \<Longrightarrow> pow2 a \<le> pow2 b"
  by (simp add: pow2_powr)



lemma find_upto_first:
  assumes "P k" and "lo \<le> k" and "k \<le> hi"
  shows "\<exists>e. find P [lo..hi] = Some e \<and> lo \<le> e \<and> e \<le> k \<and> P e
             \<and> (\<forall>e'. lo \<le> e' \<and> e' < e \<longrightarrow> \<not> P e')"
proof -
  have "k \<in> set [lo..hi]" using assms by simp
  with assms(1) have "find P [lo..hi] \<noteq> None"
    by (auto simp: find_None_iff)
  then obtain e where e: "find P [lo..hi] = Some e" by auto
  then obtain i where i: "i < length [lo..hi]" "e = [lo..hi] ! i" "P e"
    "\<forall>j<i. \<not> P ([lo..hi] ! j)"
    by (auto simp: find_Some_iff)
  have ei: "e = lo + int i" using i(1,2) by simp
  have first: "\<not> P e'" if "lo \<le> e'" "e' < e" for e'
  proof -
    define j where "j = nat (e' - lo)"
    have "j < i" using that ei by (simp add: j_def)
    moreover have "[lo..hi] ! j = e'" using that i(1) \<open>j < i\<close> by (simp add: j_def)
    ultimately show ?thesis using i(4) by auto
  qed
  have "e \<le> k"
  proof (rule ccontr)
    assume "\<not> e \<le> k"
    with first [of k] assms show False by simp
  qed
  moreover have "lo \<le> e" using ei by simp
  ultimately show ?thesis using e i(3) first by blast
qed

lemma float64_exponent_eq:
  assumes "\<bar>x\<bar> < pow2 (e + 1)" and "- 1022 \<le> e" and "e \<le> 1023"
    and "e = - 1022 \<or> pow2 e \<le> \<bar>x\<bar>"
  shows "float64_exponent x = e"
proof -
  let ?P = "\<lambda>e. \<bar>x\<bar> < pow2 (e + 1)"
  from find_upto_first [of ?P e "- 1022" 1023] assms(1-3)
  obtain e' where f: "find ?P [- 1022..1023] = Some e'" and lo: "- 1022 \<le> e'"
    and le: "e' \<le> e" and P: "?P e'"
    by blast
  have "e \<le> e'"
  proof (rule ccontr)
    assume "\<not> e \<le> e'"
    then have lt: "e' + 1 \<le> e" by simp
    with lo have "e \<noteq> - 1022" by simp
    with assms(4) have "pow2 e \<le> \<bar>x\<bar>" by simp
    moreover have "pow2 (e' + 1) \<le> pow2 e" using lt by (rule pow2_mono)
    ultimately show False using P by simp
  qed
  with le have "e' = e" by simp
  with f show ?thesis unfolding float64_exponent_def by (simp only: option.case)
qed



lemma float64_round_at:
  assumes "\<bar>x\<bar> < pow2 (e + 1)" and "- 1022 \<le> e" and "e \<le> 1023"
    and "e = - 1022 \<or> pow2 e \<le> \<bar>x\<bar>"
  shows "float64_round x = of_int (round_half_even (x / pow2 (e - 52))) * pow2 (e - 52)"
  by (simp add: float64_round_def Let_def float64_exponent_eq [OF assms])



lemma float64_zero: "float64_round 0 = 0"
  by (subst float64_round_at [where e = "- 1022"]) (simp_all add: pow2_def round_half_even_def)


lemma np_mean_3:
  "np_mean [p1, p2, p3]
     = float64_round (float64_round (float64_round (float64_round p1 + p2) + p3) / 3)"
  by (simp add: np_mean_def)

lemma float64_0_2: "float64_round 0.2 = 3602879701896397 / 18014398509481984"
  by (subst float64_round_at [where e = "- 3"]) (simp_all add: pow2_def round_half_even_def)

lemma float64_0_8: "float64_round 0.8 = 3602879701896397 / 4503599627370496"
  by (subst float64_round_at [where e = "- 1"]) (simp_all add: pow2_def round_half_even_def)

lemma float64_0_5: "float64_round (1 / 2) = 1 / 2"
  by (subst float64_round_at [where e = "- 1"]) (simp_all add: pow2_def round_half_even_def)

lemma float64_0_2_idem:
  "float64_round (3602879701896397 / 18014398509481984) = 3602879701896397 / 18014398509481984"
  by (subst float64_round_at [where e = "- 3"]) (simp_all add: pow2_def round_half_even_def)

lemma float64_0_8_idem:
  "float64_round (3602879701896397 / 4503599627370496) = 3602879701896397 / 4503599627370496"
  by (subst float64_round_at [where e = "- 1"]) (simp_all add: pow2_def round_half_even_def)

lemma sum_0_2_0_5:
  "float64_round (3602879701896397 / 18014398509481984 + 1 / 2)
     = 3152519739159347 / 4503599627370496"
  by (subst float64_round_at [where e = "- 1"]) (simp_all add: pow2_def round_half_even_def)

lemma sum_0_2_0_8:
  "float64_round (3602879701896397 / 18014398509481984 + 3602879701896397 / 4503599627370496) = 1"
  by (subst float64_round_at [where e = 0]) (simp_all add: pow2_def round_half_even_def)

lemma sum_0_5_0_8:
  "float64_round (1 / 2 + 3602879701896397 / 4503599627370496)
     = 5854679515581645 / 4503599627370496"
  by (subst float64_round_at [where e = 0]) (simp_all add: pow2_def round_half_even_def)

lemma sum_0_7_0_8:
  "float64_round (3152519739159347 / 4503599627370496 + 3602879701896397 / 4503599627370496)
     = 3 / 2"
  by (subst float64_round_at [where e = 0]) (simp_all add: pow2_def round_half_even_def)

lemma sum_1_0_0_5: "float64_round (1 + 1 / 2) = 3 / 2"
  by (subst float64_round_at [where e = 0]) (simp_all add: pow2_def round_half_even_def)

lemma sum_1_3_0_2:
  "float64_round (5854679515581645 / 4503599627370496 + 3602879701896397 / 18014398509481984)
     = 3 / 2"
  by (subst float64_round_at [where e = 0]) (simp_all add: pow2_def round_half_even_def)

lemma third_of_1_5: "float64_round (3 / 2 / 3) = 1 / 2"
  by (subst float64_round_at [where e = "- 1"]) (simp_all add: pow2_def round_half_even_def)

lemmas float64_sums =
  float64_0_2 float64_0_8 float64_0_5 float64_0_2_idem float64_0_8_idem
  sum_0_2_0_5 sum_0_2_0_8 sum_0_5_0_8 sum_0_7_0_8 sum_1_0_0_5 sum_1_3_0_2 third_of_1_5

lemma np_mean_example_perms:
  "np_mean [float64_round 0.2, 1 / 2, float64_round 0.8] = 1 / 2"
  "np_mean [float64_round 0.2, float64_round 0.8, 1 / 2] = 1 / 2"
  "np_mean [1 / 2, float64_round 0.2, float64_round 0.8] = 1 / 2"
  "np_mean [1 / 2, float64_round 0.8, float64_round 0.2] = 1 / 2"
  "np_mean [float64_round 0.8, float64_round 0.2, 1 / 2] = 1 / 2"
  "np_mean [float64_round 0.8, 1 / 2, float64_round 0.2] = 1 / 2"
proof -
  have c1: "float64_round (1 / 2 + 3602879701896397 / 18014398509481984)
     = 3152519739159347 / 4503599627370496"
    using sum_0_2_0_5 by (simp only: add.commute)
  have c2: "float64_round (3602879701896397 / 4503599627370496 + 3602879701896397 / 18014398509481984) = 1"
    using sum_0_2_0_8 by (simp only: add.commute)
  have c3: "float64_round (3602879701896397 / 4503599627370496 + 1 / 2)
     = 5854679515581645 / 4503599627370496"
    using sum_0_5_0_8 by (simp only: add.commute)
  show "np_mean [float64_round 0.2, 1 / 2, float64_round 0.8] = 1 / 2"
    by (simp only: np_mean_3 float64_sums)
  show "np_mean [float64_round 0.2, float64_round 0.8, 1 / 2] = 1 / 2"
    by (simp only: np_mean_3 float64_sums)
  show "np_mean [1 / 2, float64_round 0.2, float64_round 0.8] = 1 / 2"
    by (simp only: np_mean_3 float64_sums c1)
  show "np_mean [1 / 2, float64_round 0.8, float64_round 0.2] = 1 / 2"
    by (simp only: np_mean_3 float64_sums c3)
  show "np_mean [float64_round 0.8, float64_round 0.2, 1 / 2] = 1 / 2"
    by (simp only: np_mean_3 float64_sums c2)
  show "np_mean [float64_round 0.8, 1 / 2, float64_round 0.2] = 1 / 2"
    by (simp only: np_mean_3 float64_sums c3)
qed


section \<open>Facts about the aggregator and the loader\<close>

lemma predict_proba_0_1_Some:
  assumes "model = Some f" and "f df = Inr (row0 # rest)" and "1 < length row0"
  shows "predict_proba_0_1 model df = Inr (row0 ! 1)"
  using assms by (simp add: predict_proba_0_1_def)

lemma probabilities_Inr:
  assumes "predict_proba_0_1 (xgboost_model reg) df = Inr p1"
    and "predict_proba_0_1 (random_forest_model reg) df = Inr p2"
    and "predict_proba_0_1 (knn_model reg) df = Inr p3"
  shows "probabilities reg df
           = Inr [(''XGBoost'', p1), (''Random Forest'', p2), (''K-Nearest Neighbors'', p3)]"
  using assms by (simp add: probabilities_def)

lemma probabilities_InrD:
  assumes "probabilities reg df = Inr ps"
  shows "\<exists>p1 p2 p3. predict_proba_0_1 (xgboost_model reg) df = Inr p1
           \<and> predict_proba_0_1 (random_forest_model reg) df = Inr p2
           \<and> predict_proba_0_1 (knn_model reg) df = Inr p3
           \<and> ps = [(''XGBoost'', p1), (''Random Forest'', p2), (''K-Nearest Neighbors'', p3)]"
  using assms by (auto simp: probabilities_def split: sum.splits)

lemma make_predictions_Inl:
  "probabilities reg df = Inl e \<Longrightarrow> make_predictions reg df d page = (Inl e, page)"
  by (simp add: make_predictions_def)

lemma make_predictions_Inr:
  assumes "probabilities reg df = Inr [(n1, p1), (n2, p2), (n3, p3)]"
  shows "make_predictions reg df d page =
     (Inr (np_mean [p1, p2, p3]),
      page @
      [(Page, St_markdown [Lit ''### Model Probabilities'']),
       (Page, St_write [Lit n1, Lit '': '', Pct2 p1]),
       (Page, St_write [Lit n2, Lit '': '', Pct2 p2]),
       (Page, St_write [Lit n3, Lit '': '', Pct2 p3]),
       (Page, St_write [Lit ''Average Probability: '', Pct2 (np_mean [p1, p2, p3])]),
       (Page, St_columns 2),
       (Column 0, St_plotly_chart (create_gauge_chart (np_mean [p1, p2, p3])) True),
       (Column 0, St_write [Lit ''The customer has a '', Pct2 (np_mean [p1, p2, p3]),
                            Lit '' probability of churning.'']),
       (Column 1, St_plotly_chart
                    (create_model_probability_chart [(n1, p1), (n2, p2), (n3, p3)]) True)])"
  using assms by (simp add: make_predictions_def Let_def)

lemma load_model_success:
  assumes "fs filename = Inr content" and "content \<noteq> []" and "unpickle content = Inr model"
  shows "load_model unpickle fs filename page = (Inr (Some model), page)"
  using assms by (simp add: load_model_def pickle_load_def)

lemma load_model_not_found:
  assumes "fs filename = Inl FileNotFoundError"
  shows "load_model unpickle fs filename page
           = (Inr None,
              page @ [(Page, St_error [Lit (''Model file '' @ [CHR 0x27]), Lit filename,
                                       Lit (CHR 0x27 # '' not found.'')])])"
  using assms by (simp add: load_model_def)

lemma load_model_unpickling_error:
  assumes "fs filename = Inr content" and "content \<noteq> []"
    and "unpickle content = Inl UnpicklingError"
  shows "load_model unpickle fs filename page
           = (Inr None,
              page @ [(Page, St_error [Lit (''Error loading model from '' @ [CHR 0x27]),
                                       Lit filename,
                                       Lit (CHR 0x27 # ''. File might be corrupted.'')])])"
  using assms by (simp add: load_model_def pickle_load_def)

lemma load_model_empty:
  assumes "fs filename = Inr []"
  shows "load_model unpickle fs filename page = (Inl EOFError, page)"
  using assms by (simp add: load_model_def pickle_load_def)


lemma example_probabilities:
  "probabilities example_registry (DataFrame [])
     = Inr [(''XGBoost'', float64_round 0.2), (''Random Forest'', 1 / 2),
            (''K-Nearest Neighbors'', float64_round 0.8)]"
  by (simp add: probabilities_def predict_proba_0_1_def example_registry_def)

lemma example_aggregate:
  "fst (make_predictions example_registry (DataFrame []) [] page) = Inr (1 / 2)"
  by (simp only: make_predictions_Inr [OF example_probabilities] fst_conv
        np_mean_example_perms(1))



section \<open>The feature encoder: properties\<close>

text \<open>
  C1. For every customer record whose location is one of France, Germany, Spain and whose
  gender is one of Male, Female (the two flags being booleans), \<open>prepare_input\<close>
  returns a dict of 13 fields, the columns of the data frame, in which exactly one of the
  3 location indicators is 1 and the other two are 0, exactly one of the 2 gender
  indicators is 1 and the other is 0, and the remaining 8 fields equal the raw inputs:
  six are the very values passed in, and the two flags, stored through \<open>int\<close>, equal
  the booleans passed in under the language's \<open>==\<close>.
\<close>

theorem prepare_input_one_hot:
  assumes "location \<in> {PStr ''France'', PStr ''Germany'', PStr ''Spain''}"
    and "gender \<in> {PStr ''Male'', PStr ''Female''}"
    and "is_bool has_credit_card" and "is_bool is_active_member"
  shows "\<exists>df d. prepare_input p credit_score location gender age tenure balance num_products
                  has_credit_card is_active_member estimated_salary = Inr (df, d)
           \<and> map fst d = field_names \<and> length d = 13 \<and> columns df = field_names
           \<and> length (filter (\<lambda>k. map_of d k = Some (PInt 1))
                        [''Geography_France'', ''Geography_Germany'', ''Geography_Spain'']) = 1
           \<and> length (filter (\<lambda>k. map_of d k = Some (PInt 0))
                        [''Geography_France'', ''Geography_Germany'', ''Geography_Spain'']) = 2
           \<and> length (filter (\<lambda>k. map_of d k = Some (PInt 1))
                        [''Gender_Male'', ''Gender_Female'']) = 1
           \<and> length (filter (\<lambda>k. map_of d k = Some (PInt 0))
                        [''Gender_Male'', ''Gender_Female'']) = 1
           \<and> map_of d ''CreditScore'' = Some credit_score
           \<and> map_of d ''Age'' = Some age
           \<and> map_of d ''Tenure'' = Some tenure
           \<and> map_of d ''Balance'' = Some balance
           \<and> map_of d ''NumOfProducts'' = Some num_products
           \<and> map_of d ''EstimatedSalary'' = Some estimated_salary
           \<and> (\<exists>v. map_of d ''HasCrCard'' = Some v \<and> py_eq v has_credit_card)
           \<and> (\<exists>v. map_of d ''IsActiveMember'' = Some v \<and> py_eq v is_active_member)"
proof -
  from assms(3) obtain b1 where b1: "has_credit_card = PBool b1"
    by (cases has_credit_card) auto
  from assms(4) obtain b2 where b2: "is_active_member = PBool b2"
    by (cases is_active_member) auto
  have eqs: "py_eq (PInt (if b1 then 1 else 0)) (PBool b1)"
            "py_eq (PInt (if b2 then 1 else 0)) (PBool b2)"
    by (simp_all add: py_eq_def)
  from assms(1) consider "location = PStr ''France''" | "location = PStr ''Germany''"
    | "location = PStr ''Spain''" by auto
  then show ?thesis
  proof cases
    case 1
    with assms(2) b1 b2 eqs show ?thesis
      by (auto simp add: prepare_input_def Let_def field_names_def DataFrame_def)
  next
    case 2
    with assms(2) b1 b2 eqs show ?thesis
      by (auto simp add: prepare_input_def Let_def field_names_def DataFrame_def)
  next
    case 3
    with assms(2) b1 b2 eqs show ?thesis
      by (auto simp add: prepare_input_def Let_def field_names_def DataFrame_def)
  qed
qed

theorem prepare_input_one_hot_witness:
  "PStr ''Spain'' \<in> {PStr ''France'', PStr ''Germany'', PStr ''Spain''}
   \<and> PStr ''Female'' \<in> {PStr ''Male'', PStr ''Female''}
   \<and> is_bool (PBool True)
   \<and> (\<exists>df d. prepare_input (\<lambda>s. None) (PInt 650) (PStr ''Spain'') (PStr ''Female'') (PInt 40)
                 (PInt 3) (PFloat 50000) (PInt 2) (PBool True) (PBool True) (PFloat 60000)
               = Inr (df, d)
          \<and> map fst d = field_names
          \<and> map_of d ''Geography_Spain'' = Some (PInt 1)
          \<and> map_of d ''Gender_Female'' = Some (PInt 1)
          \<and> map_of d ''Balance'' = Some (PFloat 50000))"
proof -
  have h1: "PStr ''Spain'' \<in> {PStr ''France'', PStr ''Germany'', PStr ''Spain''}" by simp
  have h2: "PStr ''Female'' \<in> {PStr ''Male'', PStr ''Female''}" by simp
  have h3: "is_bool (PBool True)" by simp
  from prepare_input_one_hot [OF h1 h2 h3 h3, of "\<lambda>s. None" "PInt 650" "PInt 40" "PInt 3"
      "PFloat 50000" "PInt 2" "PFloat 60000"]
  obtain df d where
    r: "prepare_input (\<lambda>s. None) (PInt 650) (PStr ''Spain'') (PStr ''Female'') (PInt 40)
                 (PInt 3) (PFloat 50000) (PInt 2) (PBool True) (PBool True) (PFloat 60000)
               = Inr (df, d)"
    and k: "map fst d = field_names" and b: "map_of d ''Balance'' = Some (PFloat 50000)"
    by blast
  from r have d: "d = [(''CreditScore'', PInt 650), (''Age'', PInt 40),
       (''Tenure'', PInt 3), (''Balance'', PFloat 50000),
       (''NumOfProducts'', PInt 2), (''HasCrCard'', PInt 1),
       (''IsActiveMember'', PInt 1), (''EstimatedSalary'', PFloat 60000),
       (''Geography_France'', PInt 0), (''Geography_Germany'', PInt 0),
       (''Geography_Spain'', PInt 1), (''Gender_Male'', PInt 0),
       (''Gender_Female'', PInt 1)]"
    by (simp add: prepare_input_def Let_def)
  have "map_of d ''Geography_Spain'' = Some (PInt 1)" "map_of d ''Gender_Female'' = Some (PInt 1)"
    by (simp_all add: d)
  with r k b h1 h2 h3 show ?thesis by blast
qed

text \<open>
  C5. For every input whose location is not one of the 3 recognized strings (for example
  \<open>Italy\<close>), \<open>prepare_input\<close> raises nothing on that account: when the two flags convert
  to integers it returns, and all three location indicators are 0, in the dict and in the
  data frame.
\<close>

theorem prepare_input_unrecognized_location:
  assumes "location \<notin> {PStr ''France'', PStr ''Germany'', PStr ''Spain''}"
    and "py_int p has_credit_card = Inr h" and "py_int p is_active_member = Inr a"
  shows "\<exists>df d. prepare_input p credit_score location gender age tenure balance num_products
                  has_credit_card is_active_member estimated_salary = Inr (df, d)
           \<and> map_of d ''Geography_France'' = Some (PInt 0)
           \<and> map_of d ''Geography_Germany'' = Some (PInt 0)
           \<and> map_of d ''Geography_Spain'' = Some (PInt 0)
           \<and> df_cell df 0 ''Geography_France'' = Some (PInt 0)
           \<and> df_cell df 0 ''Geography_Germany'' = Some (PInt 0)
           \<and> df_cell df 0 ''Geography_Spain'' = Some (PInt 0)"
proof -
  from prepare_input_Inr [OF assms(2,3)]
  obtain d where r: "prepare_input p credit_score location gender age tenure balance num_products
                  has_credit_card is_active_member estimated_salary = Inr (DataFrame [d], d)"
    and d: "d = zip field_names
                 [credit_score, age, tenure, balance, num_products, PInt h, PInt a,
                  estimated_salary,
                  PInt (if py_eq location (PStr ''France'') then 1 else 0),
                  PInt (if py_eq location (PStr ''Germany'') then 1 else 0),
                  PInt (if py_eq location (PStr ''Spain'') then 1 else 0),
                  PInt (if py_eq gender (PStr ''Male'') then 1 else 0),
                  PInt (if py_eq gender (PStr ''Female'') then 1 else 0)]"
    by blast
  have dist: "distinct (map fst d)"
    by (simp add: d keys_zip_field_names distinct_field_names)
  have "map_of d ''Geography_France'' = Some (PInt 0)"
       "map_of d ''Geography_Germany'' = Some (PInt 0)"
       "map_of d ''Geography_Spain'' = Some (PInt 0)"
    using assms(1) by (simp_all add: d field_names_def)
  with r df_cell_single [OF dist] show ?thesis by auto
qed

theorem prepare_input_unrecognized_location_witness:
  "PStr ''Italy'' \<notin> {PStr ''France'', PStr ''Germany'', PStr ''Spain''}
   \<and> py_int (\<lambda>s. None) (PBool True) = Inr 1
   \<and> (\<exists>df d. prepare_input (\<lambda>s. None) (PInt 650) (PStr ''Italy'') (PStr ''Female'') (PInt 40)
         (PInt 3) (PFloat 50000) (PInt 2) (PBool True) (PBool True) (PFloat 60000)
       = Inr (df, d)
       \<and> map_of d ''Geography_France'' = Some (PInt 0)
       \<and> map_of d ''Geography_Germany'' = Some (PInt 0)
       \<and> map_of d ''Geography_Spain'' = Some (PInt 0)
       \<and> df_cell df 0 ''Geography_France'' = Some (PInt 0)
       \<and> df_cell df 0 ''Geography_Germany'' = Some (PInt 0)
       \<and> df_cell df 0 ''Geography_Spain'' = Some (PInt 0))"
proof -
  have h1: "PStr ''Italy'' \<notin> {PStr ''France'', PStr ''Germany'', PStr ''Spain''}" by simp
  have h2: "py_int (\<lambda>s. None) (PBool True) = Inr 1" by simp
  from prepare_input_unrecognized_location [OF h1 h2 h2, of "PInt 650" "PStr ''Female''"
      "PInt 40" "PInt 3" "PFloat 50000" "PInt 2" "PFloat 60000"] h1 h2
  show ?thesis by blast
qed

text \<open>
  C6. For location \<open>Germany\<close> and gender \<open>Female\<close>, whatever the other fields (the flags
  being convertible to integers), the indicator fields are Geography_France = 0,
  Geography_Germany = 1, Geography_Spain = 0, Gender_Male = 0, Gender_Female = 1.
\<close>

theorem prepare_input_germany_female:
  assumes "py_int p has_credit_card = Inr h" and "py_int p is_active_member = Inr a"
  shows "\<exists>df d. prepare_input p credit_score (PStr ''Germany'') (PStr ''Female'') age tenure
                  balance num_products has_credit_card is_active_member estimated_salary
                = Inr (df, d)
           \<and> map (map_of d) [''Geography_France'', ''Geography_Germany'', ''Geography_Spain'',
                              ''Gender_Male'', ''Gender_Female'']
             = [Some (PInt 0), Some (PInt 1), Some (PInt 0), Some (PInt 0), Some (PInt 1)]
           \<and> map (df_cell df 0) [''Geography_France'', ''Geography_Germany'', ''Geography_Spain'',
                              ''Gender_Male'', ''Gender_Female'']
             = [Some (PInt 0), Some (PInt 1), Some (PInt 0), Some (PInt 0), Some (PInt 1)]"
proof -
  from prepare_input_Inr [OF assms]
  obtain d where r: "prepare_input p credit_score (PStr ''Germany'') (PStr ''Female'') age tenure
                  balance num_products has_credit_card is_active_member estimated_salary
                = Inr (DataFrame [d], d)"
    and d: "d = zip field_names
                 [credit_score, age, tenure, balance, num_products, PInt h, PInt a,
                  estimated_salary,
                  PInt (if py_eq (PStr ''Germany'') (PStr ''France'') then 1 else 0),
                  PInt (if py_eq (PStr ''Germany'') (PStr ''Germany'') then 1 else 0),
                  PInt (if py_eq (PStr ''Germany'') (PStr ''Spain'') then 1 else 0),
                  PInt (if py_eq (PStr ''Female'') (PStr ''Male'') then 1 else 0),
                  PInt (if py_eq (PStr ''Female'') (PStr ''Female'') then 1 else 0)]"
    by blast
  have dist: "distinct (map fst d)"
    by (simp add: d keys_zip_field_names distinct_field_names)
  have "map (map_of d) [''Geography_France'', ''Geography_Germany'', ''Geography_Spain'',
                              ''Gender_Male'', ''Gender_Female'']
             = [Some (PInt 0), Some (PInt 1), Some (PInt 0), Some (PInt 0), Some (PInt 1)]"
    by (simp add: d field_names_def)
  with r df_cell_single [OF dist] show ?thesis by auto
qed


theorem prepare_input_germany_female_witness:
  "py_int (\<lambda>s. None) (PBool False) = Inr 0
   \<and> (\<exists>df d. prepare_input (\<lambda>s. None) (PInt 700) (PStr ''Germany'') (PStr ''Female'') (PInt 33)
         (PInt 0) (PFloat 0) (PInt 1) (PBool False) (PBool False) (PFloat 1234)
       = Inr (df, d)
       \<and> map (map_of d) [''Geography_France'', ''Geography_Germany'', ''Geography_Spain'',
                              ''Gender_Male'', ''Gender_Female'']
             = [Some (PInt 0), Some (PInt 1), Some (PInt 0), Some (PInt 0), Some (PInt 1)]
       \<and> map (df_cell df 0) [''Geography_France'', ''Geography_Germany'', ''Geography_Spain'',
                              ''Gender_Male'', ''Gender_Female'']
             = [Some (PInt 0), Some (PInt 1), Some (PInt 0), Some (PInt 0), Some (PInt 1)])"
proof -
  have h: "py_int (\<lambda>s. None) (PBool False) = Inr 0" by simp
  from prepare_input_germany_female [OF h h, of "PInt 700" "PInt 33" "PInt 0" "PFloat 0"
      "PInt 1" "PFloat 1234"] h
  show ?thesis by blast
qed

text \<open>
  C8. \<open>prepare_input\<close> is total and deterministic on well-typed input: it returns a data
  frame and a dict, never an exception, and two runs on the same well-typed input return
  the same, whatever the interpreter's parser of integer literals in either run. It is
  pure: it reads and writes neither the page nor the file system, which its model
  therefore does not take.
\<close>

theorem prepare_input_total_deterministic:
  assumes "well_typed credit_score location gender age tenure balance num_products
             has_credit_card is_active_member estimated_salary"
  shows "(\<exists>df d. prepare_input p credit_score location gender age tenure balance num_products
             has_credit_card is_active_member estimated_salary = Inr (df, d))
         \<and> prepare_input p' credit_score location gender age tenure balance num_products
             has_credit_card is_active_member estimated_salary
           = prepare_input p credit_score location gender age tenure balance num_products
             has_credit_card is_active_member estimated_salary"
proof -
  from assms have b: "is_bool has_credit_card" "is_bool is_active_member"
    by (simp_all add: well_typed_def)
  have eqs: "py_int p' has_credit_card = py_int p has_credit_card"
            "py_int p' is_active_member = py_int p is_active_member"
    by (simp_all add: py_int_bool b)
  have same: "prepare_input p' credit_score location gender age tenure balance num_products
             has_credit_card is_active_member estimated_salary
           = prepare_input p credit_score location gender age tenure balance num_products
             has_credit_card is_active_member estimated_salary"
    by (simp only: prepare_input_def eqs)
  from prepare_input_Inr [OF py_int_bool [OF b(1)] py_int_bool [OF b(2)]]
  have "\<exists>df d. prepare_input p credit_score location gender age tenure balance num_products
             has_credit_card is_active_member estimated_salary = Inr (df, d)"
    by blast
  with same show ?thesis by simp
qed

theorem prepare_input_total_deterministic_witness:
  "well_typed (PInt 650) (PStr ''Spain'') (PStr ''Female'') (PInt 40)
         (PInt 3) (PFloat 50000) (PInt 2) (PBool True) (PBool False) (PFloat 60000)
   \<and> (\<exists>df d. prepare_input (\<lambda>s. None) (PInt 650) (PStr ''Spain'') (PStr ''Female'') (PInt 40)
         (PInt 3) (PFloat 50000) (PInt 2) (PBool True) (PBool False) (PFloat 60000)
       = Inr (df, d))
   \<and> prepare_input (\<lambda>s. Some 7) (PInt 650) (PStr ''Spain'') (PStr ''Female'') (PInt 40)
         (PInt 3) (PFloat 50000) (PInt 2) (PBool True) (PBool False) (PFloat 60000)
     = prepare_input (\<lambda>s. None) (PInt 650) (PStr ''Spain'') (PStr ''Female'') (PInt 40)
         (PInt 3) (PFloat 50000) (PInt 2) (PBool True) (PBool False) (PFloat 60000)"
proof -
  have h: "well_typed (PInt 650) (PStr ''Spain'') (PStr ''Female'') (PInt 40)
         (PInt 3) (PFloat 50000) (PInt 2) (PBool True) (PBool False) (PFloat 60000)"
    by (simp add: well_typed_def)
  from prepare_input_total_deterministic [OF h, of "\<lambda>s. None" "\<lambda>s. Some 7"] h
  show ?thesis by blast
qed

text \<open>
  C9. Whenever \<open>prepare_input\<close> returns, the data frame has exactly one row, its columns
  and the dict's keys are the 13 field names, and the row's value under each of the 13
  names is the value the dict stores under that name.
\<close>

theorem prepare_input_frame_matches_dict:
  assumes "prepare_input p credit_score location gender age tenure balance num_products
             has_credit_card is_active_member estimated_salary = Inr (df, d)"
  shows "length (rows df) = 1 \<and> columns df = field_names \<and> map fst d = field_names
         \<and> list_all (\<lambda>k. \<exists>v. map_of d k = Some v \<and> df_cell df 0 k = Some v) field_names"
proof -
  from prepare_input_InrD [OF assms] obtain h a
    where ints: "py_int p has_credit_card = Inr h" "py_int p is_active_member = Inr a"
    by blast
  from prepare_input_Inr [OF ints] assms obtain vs
    where df: "df = DataFrame [d]" and d: "d = zip field_names vs" and vs: "length vs = 13"
    by fastforce
  have keys: "map fst d = field_names"
    by (simp add: d vs keys_zip_field_names)
  then have dist: "distinct (map fst d)"
    by (simp add: distinct_field_names)
  have cells: "df_cell df 0 k = map_of d k" for k
    by (simp add: df df_cell_single [OF dist])
  have "\<exists>v. map_of d k = Some v" if "k \<in> set field_names" for k
  proof -
    from that keys have "k \<in> fst ` set d" by (metis set_map)
    then show ?thesis by (metis map_of_eq_None_iff not_Some_eq)
  qed
  then have "list_all (\<lambda>k. \<exists>v. map_of d k = Some v \<and> df_cell df 0 k = Some v) field_names"
    by (simp add: list_all_iff cells)
  moreover have "length (rows df) = 1" "columns df = field_names"
    using keys by (simp_all add: df DataFrame_single [OF dist])
  ultimately show ?thesis using keys by simp
qed

theorem prepare_input_frame_matches_dict_witness:
  "\<exists>df d. prepare_input (\<lambda>s. None) (PInt 650) (PStr ''Spain'') (PStr ''Female'') (PInt 40)
         (PInt 3) (PFloat 50000) (PInt 2) (PBool True) (PBool True) (PFloat 60000)
       = Inr (df, d)
     \<and> length (rows df) = 1 \<and> columns df = field_names \<and> map fst d = field_names
     \<and> list_all (\<lambda>k. \<exists>v. map_of d k = Some v \<and> df_cell df 0 k = Some v) field_names"
proof -
  from example_customer obtain d where
    r: "prepare_input (\<lambda>s. None) (PInt 650) (PStr ''Spain'') (PStr ''Female'') (PInt 40)
         (PInt 3) (PFloat 50000) (PInt 2) (PBool True) (PBool True) (PFloat 60000)
       = Inr (DataFrame [d], d)"
    by blast
  from prepare_input_frame_matches_dict [OF r] r show ?thesis by blast
qed

text \<open>
  C10. For boolean \<open>has_credit_card\<close> and \<open>is_active_member\<close>, the fields HasCrCard and
  IsActiveMember of the encoding are the integers 1 (for \<open>True\<close>) or 0 (for \<open>False\<close>), in
  the dict and in the data frame, and no other value.
\<close>

theorem prepare_input_flags:
  assumes "is_bool has_credit_card" and "is_bool is_active_member"
  shows "\<exists>df d. prepare_input p credit_score location gender age tenure balance num_products
                  has_credit_card is_active_member estimated_salary = Inr (df, d)
           \<and> map_of d ''HasCrCard'' = Some (PInt (if has_credit_card = PBool True then 1 else 0))
           \<and> map_of d ''IsActiveMember'' = Some (PInt (if is_active_member = PBool True then 1 else 0))
           \<and> map_of d ''HasCrCard'' \<in> {Some (PInt 0), Some (PInt 1)}
           \<and> map_of d ''IsActiveMember'' \<in> {Some (PInt 0), Some (PInt 1)}
           \<and> df_cell df 0 ''HasCrCard'' = map_of d ''HasCrCard''
           \<and> df_cell df 0 ''IsActiveMember'' = map_of d ''IsActiveMember''"
proof -
  from prepare_input_Inr [OF py_int_bool [OF assms(1)] py_int_bool [OF assms(2)]]
  obtain d where r: "prepare_input p credit_score location gender age tenure balance num_products
                  has_credit_card is_active_member estimated_salary = Inr (DataFrame [d], d)"
    and d: "d = zip field_names
                 [credit_score, age, tenure, balance, num_products,
                  PInt (if has_credit_card = PBool True then 1 else 0),
                  PInt (if is_active_member = PBool True then 1 else 0), estimated_salary,
                  PInt (if py_eq location (PStr ''France'') then 1 else 0),
                  PInt (if py_eq location (PStr ''Germany'') then 1 else 0),
                  PInt (if py_eq location (PStr ''Spain'') then 1 else 0),
                  PInt (if py_eq gender (PStr ''Male'') then 1 else 0),
                  PInt (if py_eq gender (PStr ''Female'') then 1 else 0)]"
    by blast
  have dist: "distinct (map fst d)"
    by (simp add: d keys_zip_field_names distinct_field_names)
  have "map_of d ''HasCrCard'' = Some (PInt (if has_credit_card = PBool True then 1 else 0))"
       "map_of d ''IsActiveMember'' = Some (PInt (if is_active_member = PBool True then 1 else 0))"
    by (simp_all add: d field_names_def)
  with r df_cell_single [OF dist] show ?thesis by auto
qed

theorem prepare_input_flags_witness:
  "is_bool (PBool True) \<and> is_bool (PBool False)
   \<and> (\<exists>df d. prepare_input (\<lambda>s. None) (PInt 650) (PStr ''Spain'') (PStr ''Female'') (PInt 40)
         (PInt 3) (PFloat 50000) (PInt 2) (PBool True) (PBool False) (PFloat 60000)
       = Inr (df, d)
       \<and> map_of d ''HasCrCard'' = Some (PInt 1)
       \<and> map_of d ''IsActiveMember'' = Some (PInt 0)
       \<and> df_cell df 0 ''HasCrCard'' = Some (PInt 1)
       \<and> df_cell df 0 ''IsActiveMember'' = Some (PInt 0))"
proof -
  have h1: "is_bool (PBool True)" and h2: "is_bool (PBool False)" by simp_all
  from prepare_input_flags [OF h1 h2, of "\<lambda>s. None" "PInt 650" "PStr ''Spain''"
      "PStr ''Female''" "PInt 40" "PInt 3" "PFloat 50000" "PInt 2" "PFloat 60000"]
  show ?thesis by auto
qed

section \<open>The prediction aggregator: properties\<close>




text \<open>
  C3, as stated: \<open>make_predictions\<close> has no side effect, so the page after the call is
  the page before it. It is not: on an empty page, with the three example models, the
  call leaves rendering calls on the page.
\<close>

theorem make_predictions_renders_counterexample:
  "snd (make_predictions example_registry (DataFrame []) [] []) \<noteq> []"
  using make_predictions_Inr [OF example_probabilities, of "[]" "[]"] by simp

text \<open>
  C3, amended. \<open>make_predictions\<close> computes the probabilities and their mean from the
  data frame and the three models, and its one side effect is rendering: it keeps what
  the page held and appends its own calls. When a model fails it appends nothing and the
  exception leaves the function. When the three models answer it returns the aggregate
  alone and appends nine calls: the heading, one line per model, the line of the average
  and the two-column layout on the page, the gauge chart and the sentence in the first
  column, the bar chart of the probability map in the second. What it returns does not
  depend on what the page held.
\<close>

theorem make_predictions_effects:
  "\<exists>calls. snd (make_predictions reg input_df input_dict page) = page @ calls
     \<and> fst (make_predictions reg input_df input_dict page)
         = fst (make_predictions reg input_df input_dict page0)
     \<and> (case probabilities reg input_df of
           Inl e \<Rightarrow> calls = [] \<and> fst (make_predictions reg input_df input_dict page) = Inl e
         | Inr ps \<Rightarrow>
             fst (make_predictions reg input_df input_dict page) = Inr (np_mean (map snd ps))
             \<and> map fst calls
                 = [Page, Page, Page, Page, Page, Page, Column 0, Column 0, Column 1]
             \<and> calls ! 0 = (Page, St_markdown [Lit ''### Model Probabilities''])
             \<and> take 3 (drop 1 calls)
                 = map (\<lambda>(model, prob). (Page, St_write [Lit model, Lit '': '', Pct2 prob])) ps
             \<and> calls ! 4
                 = (Page, St_write [Lit ''Average Probability: '', Pct2 (np_mean (map snd ps))])
             \<and> calls ! 5 = (Page, St_columns 2)
             \<and> calls ! 6
                 = (Column 0, St_plotly_chart (create_gauge_chart (np_mean (map snd ps))) True)
             \<and> calls ! 7
                 = (Column 0, St_write [Lit ''The customer has a '', Pct2 (np_mean (map snd ps)),
                                        Lit '' probability of churning.''])
             \<and> calls ! 8
                 = (Column 1, St_plotly_chart (create_model_probability_chart ps) True))"
proof (cases "probabilities reg input_df")
  case (Inl e)
  then show ?thesis by (simp add: make_predictions_Inl)
next
  case (Inr ps)
  from probabilities_InrD [OF Inr] obtain p1 p2 p3 where
    ps: "ps = [(''XGBoost'', p1), (''Random Forest'', p2), (''K-Nearest Neighbors'', p3)]"
    by blast
  note r = Inr [unfolded ps]
  show ?thesis
    by (simp add: r ps make_predictions_Inr [OF r])
qed

theorem make_predictions_effects_witness:
  "\<exists>calls. snd (make_predictions example_registry (DataFrame []) [] []) = calls
     \<and> length calls = 9
     \<and> fst (make_predictions example_registry (DataFrame []) [] []) = Inr 0.5"
proof -
  from make_predictions_effects [of example_registry "DataFrame []" "[]" "[]" "[]"]
  obtain calls where c: "snd (make_predictions example_registry (DataFrame []) [] []) = calls"
    and m: "map fst calls = [Page, Page, Page, Page, Page, Page, Column 0, Column 0, Column 1]"
    by (auto simp: example_probabilities)
  from m have "length (map fst calls) = 9" by simp
  then have "length calls = 9" by simp
  moreover have "fst (make_predictions example_registry (DataFrame []) [] []) = Inr 0.5"
    using example_aggregate [of "[]"] by simp
  ultimately show ?thesis using c by blast
qed

text \<open>
  C7. When the three registered models are loaded and each answers, for the data frame
  passed in, an array whose first row has a class index 1, \<open>make_predictions\<close> calls each
  on that same data frame and records the entry at row 0, column 1: the probability map
  has exactly 3 entries, one per model name, and it is the map the bar chart, the last
  call rendered, is built from.
\<close>

theorem aggregator_probability_map:
  assumes "xgboost_model reg = Some m1" and "m1 input_df = Inr (r1 # rest1)" and "1 < length r1"
    and "random_forest_model reg = Some m2" and "m2 input_df = Inr (r2 # rest2)" and "1 < length r2"
    and "knn_model reg = Some m3" and "m3 input_df = Inr (r3 # rest3)" and "1 < length r3"
  shows "\<exists>ps. probabilities reg input_df = Inr ps
           \<and> ps = [(''XGBoost'', r1 ! 1), (''Random Forest'', r2 ! 1),
                   (''K-Nearest Neighbors'', r3 ! 1)]
           \<and> length ps = 3 \<and> distinct (map fst ps)
           \<and> snd (make_predictions reg input_df input_dict page) \<noteq> []
           \<and> last (snd (make_predictions reg input_df input_dict page))
               = (Column 1, St_plotly_chart (create_model_probability_chart ps) True)"
proof -
  have ps: "probabilities reg input_df
      = Inr [(''XGBoost'', r1 ! 1), (''Random Forest'', r2 ! 1), (''K-Nearest Neighbors'', r3 ! 1)]"
    by (rule probabilities_Inr)
       (rule predict_proba_0_1_Some, fact, fact, fact)+
  show ?thesis
    by (simp add: ps make_predictions_Inr [OF ps])
qed

theorem aggregator_probability_map_witness:
  "xgboost_model example_registry = Some (\<lambda>df. Inr [[float64_round 0.8, float64_round 0.2]])
   \<and> random_forest_model example_registry = Some (\<lambda>df. Inr [[1 / 2, 1 / 2]])
   \<and> knn_model example_registry = Some (\<lambda>df. Inr [[float64_round 0.2, float64_round 0.8]])
   \<and> probabilities example_registry (DataFrame [])
       = Inr [(''XGBoost'', float64_round 0.2), (''Random Forest'', 1 / 2),
              (''K-Nearest Neighbors'', float64_round 0.8)]
   \<and> last (snd (make_predictions example_registry (DataFrame []) [] []))
       = (Column 1, St_plotly_chart
            (create_model_probability_chart
               [(''XGBoost'', float64_round 0.2), (''Random Forest'', 1 / 2),
                (''K-Nearest Neighbors'', float64_round 0.8)])
            True)"
proof -
  have h1: "xgboost_model example_registry
              = Some (\<lambda>df. Inr [[float64_round 0.8, float64_round 0.2]])"
    and h2: "random_forest_model example_registry = Some (\<lambda>df. Inr [[1 / 2, 1 / 2]])"
    and h3: "knn_model example_registry
              = Some (\<lambda>df. Inr [[float64_round 0.2, float64_round 0.8]])"
    by (simp_all add: example_registry_def)
  have a1: "(\<lambda>df. Inr [[float64_round 0.8, float64_round 0.2]]) (DataFrame [])
              = (Inr ([float64_round 0.8, float64_round 0.2] # []) :: error + real list list)"
    and a2: "(\<lambda>df. Inr [[1 / 2, 1 / 2::real]]) (DataFrame [])
              = (Inr ([1 / 2, 1 / 2] # []) :: error + real list list)"
    and a3: "(\<lambda>df. Inr [[float64_round 0.2, float64_round 0.8]]) (DataFrame [])
              = (Inr ([float64_round 0.2, float64_round 0.8] # []) :: error + real list list)"
    by simp_all
  have l: "1 < length [float64_round 0.8, float64_round 0.2]" "1 < length [1 / 2, 1 / 2::real]"
    "1 < length [float64_round 0.2, float64_round 0.8]"
    by simp_all
  from aggregator_probability_map [where input_dict = "[]" and page = "[]",
      OF h1 a1 l(1) h2 a2 l(2) h3 a3 l(3)] h1 h2 h3
  show ?thesis by simp
qed

section \<open>The model loader: properties\<close>

text \<open>
  C4. The claim is that \<open>load_model\<close> reports a missing file and a malformed artifact
  alike and returns no model, raising nothing. On an artifact that is an empty file it
  does not: unpickling raises \<open>EOFError\<close>, which neither handler names, so the exception
  leaves \<open>load_model\<close>, nothing is reported on the page and no \<open>None\<close> is returned.
\<close>

theorem load_model_empty_file_raises:
  "load_model unpickle
     (\<lambda>path. if path = ''xgb_model.pkl'' then Inr [] else Inl FileNotFoundError)
     ''xgb_model.pkl'' []
   = (Inl EOFError, [])"
  by (simp add: load_model_def pickle_load_def)

end
